theory Spec2Isabelle
  imports Complex_Main
begin

section \<open>The notes service of \<^verbatim>\<open>src/index.js\<close>\<close>

text \<open>
  The service keeps one module-level variable \<^verbatim>\<open>notes\<close>, an array of note objects,
  and five route handlers read or replace it. Each handler is embedded as a function
  from the current array to the new array and the response it sends. Node runs a
  handler to completion before the next request is served, and no handler awaits, so a
  request is one step on the array. A handler that throws is a handler whose result
  is the error; the service then answers through its error middleware.
\<close>

subsection \<open>JavaScript values\<close>

text \<open>
  A JavaScript number is \<^verbatim>\<open>NaN\<close>, one of the two infinities, or a finite value; the
  finite values are rationals (\<^verbatim>\<open>-0\<close> is identified with \<^verbatim>\<open>0\<close>: both are falsy,
  \<^verbatim>\<open>-0 === 0\<close> holds, and no handler divides).
\<close>

datatype number = NaN | PosInfinity | NegInfinity | Fin rat

text \<open>
  The values a parsed JSON body can hold, and \<^verbatim>\<open>undefined\<close>, which is what reading a
  property that the body does not have gives.
\<close>

datatype jsval =
    JUndefined
  | JNull
  | JBool bool
  | JNum number
  | JStr string
  | JArr "jsval list"
  | JObj "(string \<times> jsval) list"

text \<open>
  ToBoolean, as \<^verbatim>\<open>!x\<close>, \<^verbatim>\<open>x || y\<close> and \<^verbatim>\<open>if (x)\<close> use it: \<^verbatim>\<open>undefined\<close>,
  \<^verbatim>\<open>null\<close>, \<^verbatim>\<open>false\<close>, \<^verbatim>\<open>0\<close>, \<^verbatim>\<open>NaN\<close> and the empty string are falsy; every
  other value, every array and object included, is truthy.
\<close>

fun truthy :: "jsval \<Rightarrow> bool" where
  "truthy JUndefined = False"
| "truthy JNull = False"
| "truthy (JBool b) = b"
| "truthy (JNum n) = (n \<noteq> NaN \<and> n \<noteq> Fin 0)"
| "truthy (JStr s) = (s \<noteq> [])"
| "truthy (JArr xs) = True"
| "truthy (JObj kvs) = True"

text \<open>The operator \<^verbatim>\<open>a || b\<close>: the left operand when it is truthy, else the right one.\<close>

definition js_or :: "jsval \<Rightarrow> jsval \<Rightarrow> jsval" where
  "js_or a b = (if truthy a then a else b)"

subsection \<open>Notes, request bodies and responses\<close>

text \<open>
  A note object (the record \<open>Note\<close>) has the four properties \<^verbatim>\<open>id\<close>, \<^verbatim>\<open>content\<close>,
  \<^verbatim>\<open>important\<close> and \<^verbatim>\<open>date\<close>. The field \<open>id_note\<close> is the property \<^verbatim>\<open>id\<close> (renamed: \<open>id\<close> is the
  identity function of HOL). Ids are the seed's 1, 2, 3 and the results of
  \<^verbatim>\<open>generateId\<close>, so they are integers; a JavaScript number holds every integer of
  magnitude up to \<open>2 ^ 53\<close> exactly, and lemma \<open>run_ids_bounded\<close> below shows that the
  ids only grow by one per request, so \<open>int\<close> is exact for them. \<^verbatim>\<open>content\<close> and
  \<^verbatim>\<open>important\<close> hold whatever value the body carried; \<^verbatim>\<open>date\<close> is the string that
  \<^verbatim>\<open>new Date().toISOString()\<close> returned.
\<close>

record Note =
  id_note :: int
  content :: jsval
  important :: jsval
  date :: string

text \<open>
  \<^verbatim>\<open>req.body\<close> is the object that \<^verbatim>\<open>express.json()\<close> parsed: \<open>body k\<close> is the value
  of \<^verbatim>\<open>body.k\<close>, and \<open>JUndefined\<close> for a property the object does not have (an
  array is such an object too, with neither of the two properties that the handlers
  read). When the middleware parsed nothing, as for a request that carries no JSON
  body, \<^verbatim>\<open>req.body\<close> can be \<^verbatim>\<open>undefined\<close> itself: a handler gets a \<open>body option\<close>,
  \<open>None\<close> for \<^verbatim>\<open>undefined\<close> and \<open>Some b\<close> for the object \<open>b\<close>.
\<close>

type_synonym body = "string \<Rightarrow> jsval"

text \<open>
  Reading a property of \<^verbatim>\<open>undefined\<close> throws a \<^verbatim>\<open>TypeError\<close>;
  \<open>TypeError_undefined k\<close> is the one thrown by reading the property \<open>k\<close>.
\<close>

datatype js_error = TypeError_undefined string

text \<open>
  What a handler sends: the status (\<^verbatim>\<open>res.json\<close> without \<^verbatim>\<open>res.status\<close> sends
  200) and the value given to \<^verbatim>\<open>res.json\<close>, or no body after \<^verbatim>\<open>res.end()\<close>.
  \<open>Json_error m\<close> is the object \<^verbatim>\<open>{ error: m }\<close>, and \<open>Json_internal_error m\<close> is
  \<^verbatim>\<open>{ error: 'Internal server error', message: m }\<close>, where the message \<open>m\<close> is
  either \<^verbatim>\<open>err.message\<close>, the text the engine gave the error, or a fixed text.
\<close>

datatype message = Err_message js_error | Text string

datatype res_body =
    Json_note Note
  | Json_notes "Note list"
  | Json_error string
  | Json_internal_error message
  | No_body

record response =
  status :: nat
  payload :: res_body

subsection \<open>The initial collection\<close>

text \<open>The three seed notes; each date is the clock's reading when the module loads.\<close>

definition notes_init :: "string \<Rightarrow> string \<Rightarrow> string \<Rightarrow> Note list" where
  "notes_init d1 d2 d3 =
     [\<lparr>id_note = 1, content = JStr ''HTML is easy'', important = JBool True, date = d1\<rparr>,
      \<lparr>id_note = 2, content = JStr ''Browser can execute only JavaScript'',
         important = JBool False, date = d2\<rparr>,
      \<lparr>id_note = 3,
         content = JStr ''GET and POST are the most important methods of HTTP protocol'',
         important = JBool True, date = d3\<rparr>]"

subsection \<open>generateId\<close>

text \<open>
  \<^verbatim>\<open>Math.max(...xs)\<close> goes through its arguments and keeps the greater one. The
  source calls it only under the guard \<^verbatim>\<open>notes.length > 0\<close>. On no argument it is
  \<^verbatim>\<open>-Infinity\<close>, which no \<open>int\<close> stands for: the function has no equation for
  \<open>[]\<close>, and \<open>generateId\<close> never asks for one.
\<close>

fun Math_max :: "int list \<Rightarrow> int" where
  "Math_max (x # xs) = fold max xs x"

definition generateId :: "Note list \<Rightarrow> int" where
  "generateId notes =
     (let maxId = (if length notes > 0 then Math_max (map id_note notes) else 0)
      in maxId + 1)"

subsection \<open>The route handlers\<close>

text \<open>
  \<^verbatim>\<open>note.id === id\<close>, for the integer \<^verbatim>\<open>note.id\<close> and the number \<^verbatim>\<open>id\<close> that
  \<^verbatim>\<open>Number(req.params.id)\<close> returned: true exactly when \<^verbatim>\<open>id\<close> is that integer.
  \<^verbatim>\<open>NaN\<close> is equal to nothing.
\<close>

definition id_eq :: "int \<Rightarrow> number \<Rightarrow> bool" where
  "id_eq k i = (i = Fin (of_int k))"

text \<open>
  In the three handlers of \<^verbatim>\<open>/api/notes/:id\<close> the argument \<open>i\<close> is the value of
  \<^verbatim>\<open>Number(req.params.id)\<close>. In the handler of POST, \<open>now\<close> is the value of
  \<^verbatim>\<open>new Date().toISOString()\<close> at the call. The handlers of POST and PUT read
  properties of \<^verbatim>\<open>req.body\<close> and throw when it is \<^verbatim>\<open>undefined\<close>: their result is
  \<open>Inl\<close> of the error thrown, or \<open>Inr\<close> of the new array and the response sent.
  POST reads \<^verbatim>\<open>body.content\<close> first of all; PUT reads \<^verbatim>\<open>body.important\<close> only after
  it has found the note, so its 404 does not depend on the body.
\<close>

definition get_notes :: "Note list \<Rightarrow> Note list \<times> response" where
  "get_notes notes = (notes, \<lparr>status = 200, payload = Json_notes notes\<rparr>)"

definition get_note :: "number \<Rightarrow> Note list \<Rightarrow> Note list \<times> response" where
  "get_note i notes =
     (case find (\<lambda>n. id_eq (id_note n) i) notes of
        Some n \<Rightarrow> (notes, \<lparr>status = 200, payload = Json_note n\<rparr>)
      | None \<Rightarrow> (notes, \<lparr>status = 404, payload = Json_error ''Note not found''\<rparr>))"

definition post_note ::
  "string \<Rightarrow> body option \<Rightarrow> Note list \<Rightarrow> js_error + Note list \<times> response" where
  "post_note now body notes =
     (case body of
        None \<Rightarrow> Inl (TypeError_undefined ''content'')
      | Some b \<Rightarrow>
          if \<not> truthy (b ''content'')
          then Inr (notes, \<lparr>status = 400, payload = Json_error ''Content is required''\<rparr>)
          else
            let n = \<lparr>id_note = generateId notes,
                     content = b ''content'',
                     important = js_or (b ''important'') (JBool False),
                     date = now\<rparr>
            in Inr (notes @ [n], \<lparr>status = 201, payload = Json_note n\<rparr>))"

definition put_note ::
  "number \<Rightarrow> body option \<Rightarrow> Note list \<Rightarrow> js_error + Note list \<times> response" where
  "put_note i body notes =
     (case find (\<lambda>n. id_eq (id_note n) i) notes of
        None \<Rightarrow> Inr (notes, \<lparr>status = 404, payload = Json_error ''Note not found''\<rparr>)
      | Some n \<Rightarrow>
          (case body of
             None \<Rightarrow> Inl (TypeError_undefined ''important'')
           | Some b \<Rightarrow>
               let updatedNote =
                     n\<lparr>important :=
                         (if b ''important'' \<noteq> JUndefined then b ''important''
                          else important n)\<rparr>
               in Inr (map (\<lambda>m. if id_eq (id_note m) i then updatedNote else m) notes,
                       \<lparr>status = 200, payload = Json_note updatedNote\<rparr>)))"

definition delete_note :: "number \<Rightarrow> Note list \<Rightarrow> Note list \<times> response" where
  "delete_note i notes =
     (filter (\<lambda>n. \<not> id_eq (id_note n) i) notes, \<lparr>status = 204, payload = No_body\<rparr>)"

text \<open>
  The error middleware, the last \<^verbatim>\<open>app.use\<close> of the file: it answers 500, with
  \<^verbatim>\<open>err.message\<close> when \<^verbatim>\<open>process.env.NODE_ENV === 'development'\<close> (the flag
  \<open>development\<close>) and with a fixed text otherwise.
\<close>

definition error_handler :: "bool \<Rightarrow> js_error \<Rightarrow> response" where
  "error_handler development err =
     \<lparr>status = 500,
      payload = Json_internal_error
        (if development then Err_message err else Text ''Something went wrong'')\<rparr>"

text \<open>
  Express catches what a handler throws and gives it to the error middleware. Both
  handlers that can throw do so before they assign \<^verbatim>\<open>notes\<close>, so the array is then
  the one the request found.
\<close>

definition served ::
  "bool \<Rightarrow> Note list \<Rightarrow> js_error + Note list \<times> response \<Rightarrow> Note list \<times> response" where
  "served development notes result =
     (case result of
        Inl err \<Rightarrow> (notes, error_handler development err)
      | Inr out \<Rightarrow> out)"

text \<open>A request to one of the five note routes, and what the service does with it.\<close>

datatype request =
    Get_notes
  | Get_note number
  | Post_note string "body option"
  | Put_note number "body option"
  | Delete_note number

fun handle :: "bool \<Rightarrow> request \<Rightarrow> Note list \<Rightarrow> Note list \<times> response" where
  "handle development Get_notes notes = get_notes notes"
| "handle development (Get_note i) notes = get_note i notes"
| "handle development (Post_note now body) notes =
     served development notes (post_note now body notes)"
| "handle development (Put_note i body) notes =
     served development notes (put_note i body notes)"
| "handle development (Delete_note i) notes = delete_note i notes"

text \<open>The collection after a sequence of requests, served in order.\<close>

fun run :: "bool \<Rightarrow> request list \<Rightarrow> Note list \<Rightarrow> Note list" where
  "run development [] notes = notes"
| "run development (r # rs) notes = run development rs (fst (handle development r notes))"

section \<open>Auxiliary facts\<close>

subsection \<open>generateId\<close>

lemma Math_max_Max:
  assumes "xs \<noteq> []"
  shows "Math_max xs = Max (set xs)"
proof (cases xs)
  case Nil
  with assms show ?thesis by simp
next
  case (Cons x ys)
  have "Max (set (x # ys)) = fold max ys x"
    by (rule Max.set_eq_fold)
  with Cons show ?thesis by simp
qed

lemma generateId_Nil: "generateId [] = 1"
  by (simp add: generateId_def)

lemma generateId_Max:
  "notes \<noteq> [] \<Longrightarrow> generateId notes = Max (id_note ` set notes) + 1"
  by (simp add: generateId_def Math_max_Max)

lemma generateId_gt: "n \<in> set notes \<Longrightarrow> id_note n < generateId notes"
proof -
  assume n: "n \<in> set notes"
  then have ne: "notes \<noteq> []" by auto
  have "id_note n \<le> Max (id_note ` set notes)"
    using n by (intro Max_ge) auto
  then show ?thesis
    using ne by (simp add: generateId_Max)
qed

lemma generateId_attained:
  "notes \<noteq> [] \<Longrightarrow> \<exists>n\<in>set notes. generateId notes = id_note n + 1"
proof -
  assume ne: "notes \<noteq> []"
  then have "Max (id_note ` set notes) \<in> id_note ` set notes"
    by (intro Max_in) auto
  then obtain n where "n \<in> set notes" and "Max (id_note ` set notes) = id_note n"
    by auto
  then show ?thesis
    using ne by (auto simp: generateId_Max)
qed

lemma generateId_fresh: "generateId notes \<notin> id_note ` set notes"
  using generateId_gt by fastforce

subsection \<open>Looking a note up by the id of the path\<close>

lemma id_eq_same: "id_eq k i \<Longrightarrow> id_eq l i \<Longrightarrow> k = l"
  by (simp add: id_eq_def)

lemma id_eq_of_int [simp]: "id_eq k (Fin (of_int l)) = (l = k)"
  by (auto simp: id_eq_def)

lemma id_eq_NaN: "\<not> id_eq k NaN"
  by (simp add: id_eq_def)

lemma find_NaN: "find (\<lambda>n. id_eq (id_note n) NaN) notes = None"
  by (simp add: find_None_iff id_eq_NaN)

lemma filter_NaN: "filter (\<lambda>n. \<not> id_eq (id_note n) NaN) notes = notes"
  by (simp add: id_eq_NaN)

lemma find_id_eq_Some:
  "find (\<lambda>n. id_eq (id_note n) i) notes = Some n \<Longrightarrow> n \<in> set notes \<and> id_eq (id_note n) i"
  by (auto simp: find_Some_iff)

lemma find_id_eq_present:
  assumes "m \<in> set notes" and "id_eq (id_note m) i"
  obtains n where "find (\<lambda>n. id_eq (id_note n) i) notes = Some n"
  using assms by (cases "find (\<lambda>n. id_eq (id_note n) i) notes") (auto simp: find_None_iff)

lemma find_id_eq_absent:
  "(\<forall>n\<in>set notes. \<not> id_eq (id_note n) i) \<Longrightarrow> find (\<lambda>n. id_eq (id_note n) i) notes = None"
  by (simp add: find_None_iff)


subsection \<open>The ids in the collection after a request\<close>

lemma get_note_fst: "fst (get_note i notes) = notes"
  by (simp add: get_note_def split: option.split)

lemma served_Inl: "served development notes (Inl err) = (notes, error_handler development err)"
  by (simp add: served_def)

lemma served_Inr: "served development notes (Inr out) = out"
  by (simp add: served_def)

lemma put_note_ids:
  "map id_note (fst (served development notes (put_note i body notes))) = map id_note notes"
proof (cases "find (\<lambda>n. id_eq (id_note n) i) notes")
  case None
  then show ?thesis by (simp add: put_note_def served_Inr)
next
  case (Some n)
  show ?thesis
  proof (cases body)
    case None
    with Some show ?thesis by (simp add: put_note_def served_Inl)
  next
    case (Some b)
    from \<open>find (\<lambda>n. id_eq (id_note n) i) notes = Some n\<close> have "id_eq (id_note n) i"
      by (simp add: find_id_eq_Some)
    then have "\<And>m. id_eq (id_note m) i \<Longrightarrow> id_note n = id_note m"
      by (rule id_eq_same)
    with Some \<open>find (\<lambda>n. id_eq (id_note n) i) notes = Some n\<close> show ?thesis
      by (auto simp: put_note_def served_Inr Let_def)
  qed
qed

lemma post_note_ids:
  "distinct (map id_note notes) \<Longrightarrow>
   distinct (map id_note (fst (served development notes (post_note now body notes))))"
  using generateId_fresh [of "notes"]
  by (simp add: post_note_def served_def Let_def split: option.split)

lemma delete_note_ids:
  "distinct (map id_note notes) \<Longrightarrow> distinct (map id_note (fst (delete_note i notes)))"
  by (simp add: delete_note_def distinct_map_filter)

lemma handle_distinct:
  "distinct (map id_note notes) \<Longrightarrow>
   distinct (map id_note (fst (handle development r notes)))"
  by (cases r) (simp_all add: get_notes_def get_note_fst post_note_ids put_note_ids delete_note_ids)

lemma run_distinct:
  "distinct (map id_note notes) \<Longrightarrow> distinct (map id_note (run development rs notes))"
  by (induction rs arbitrary: "notes") (simp_all add: handle_distinct)

subsection \<open>Ids stay small\<close>

text \<open>
  A request raises the greatest id by at most one, so after any sequence of requests
  on the seed every id lies between 1 and 3 plus the number of requests served. The
  ids therefore stay far inside the range in which a JavaScript number is an exact
  integer, which is what modelling them as \<open>int\<close> relies on.
\<close>

lemma generateId_le:
  assumes "0 \<le> b" and "\<forall>n\<in>set notes. id_note n \<le> b"
  shows "generateId notes \<le> b + 1"
proof (cases "notes = []")
  case True
  with assms(1) show ?thesis by (simp add: generateId_Nil)
next
  case False
  then obtain n where "n \<in> set notes" and "generateId notes = id_note n + 1"
    using generateId_attained by blast
  with assms(2) show ?thesis by auto
qed

lemma generateId_ge_1:
  assumes "\<forall>n\<in>set notes. 1 \<le> id_note n"
  shows "1 \<le> generateId notes"
proof (cases "notes = []")
  case True
  then show ?thesis by (simp add: generateId_Nil)
next
  case False
  then obtain n where "n \<in> set notes" and "generateId notes = id_note n + 1"
    using generateId_attained by blast
  with assms show ?thesis by auto
qed

lemma handle_ids_bounded:
  assumes "0 \<le> b" and "\<forall>n\<in>set notes. 1 \<le> id_note n \<and> id_note n \<le> b"
  shows "\<forall>n\<in>set (fst (handle development r notes)). 1 \<le> id_note n \<and> id_note n \<le> b + 1"
proof (cases r)
  case Get_notes
  with assms(2) show ?thesis by (auto simp: get_notes_def)
next
  case (Get_note i)
  with assms(2) show ?thesis by (auto simp: get_note_fst)
next
  case (Post_note now body)
  have "generateId notes \<le> b + 1" and "1 \<le> generateId notes"
    using assms by (simp_all add: generateId_le generateId_ge_1)
  with Post_note assms(2) show ?thesis
    by (auto simp: post_note_def served_def Let_def split: option.split)
next
  case (Put_note i body)
  have "set (map id_note (fst (served development notes (put_note i body notes)))) =
      set (map id_note notes)"
    by (simp only: put_note_ids)
  then have "id_note ` set (fst (served development notes (put_note i body notes))) =
      id_note ` set notes"
    by simp
  then have "\<forall>n\<in>set (fst (served development notes (put_note i body notes))).
      \<exists>m\<in>set notes. id_note n = id_note m"
    by blast
  with assms(2) have "\<forall>n\<in>set (fst (served development notes (put_note i body notes))).
      1 \<le> id_note n \<and> id_note n \<le> b + 1"
    by fastforce
  with Put_note show ?thesis by simp
next
  case (Delete_note i)
  with assms(2) show ?thesis by (auto simp: delete_note_def)
qed

lemma run_ids_bounded_from:
  assumes "0 \<le> b" and "\<forall>n\<in>set notes. 1 \<le> id_note n \<and> id_note n \<le> b"
  shows "\<forall>n\<in>set (run development rs notes).
           1 \<le> id_note n \<and> id_note n \<le> b + int (length rs)"
  using assms
proof (induction rs arbitrary: "notes" b)
  case Nil
  then show ?case by simp
next
  case (Cons r rs)
  have "\<forall>n\<in>set (fst (handle development r notes)). 1 \<le> id_note n \<and> id_note n \<le> b + 1"
    using Cons.prems by (rule handle_ids_bounded)
  with Cons.prems(1) have
    "\<forall>n\<in>set (run development rs (fst (handle development r notes))).
       1 \<le> id_note n \<and> id_note n \<le> (b + 1) + int (length rs)"
    by (intro Cons.IH) simp_all
  then show ?case by (simp add: add.assoc)
qed

lemma run_ids_bounded:
  "\<forall>n\<in>set (run development rs (notes_init d1 d2 d3)).
     1 \<le> id_note n \<and> id_note n \<le> 3 + int (length rs)"
  by (rule run_ids_bounded_from) (simp_all add: notes_init_def)

subsection \<open>Evaluating the handlers on a concrete request\<close>

lemmas handlers_eval =
  notes_init_def get_notes_def get_note_def post_note_def put_note_def delete_note_def
  generateId_def js_or_def id_eq_def error_handler_def served_def Let_def

section \<open>The claims\<close>

text \<open>
  In the concrete instances below, the body \<^verbatim>\<open>{content: "test"}\<close> is the function
  \<open>(\<lambda>k. JUndefined)(''content'' := JStr ''test'')\<close>, and the seed notes carry the
  dates \<open>''a''\<close>, \<open>''b''\<close> and \<open>''c''\<close>.
\<close>

subsection \<open>C1: a successful create\<close>

text \<open>
  C1. For every create request whose body has a truthy \<^verbatim>\<open>content\<close>, the handler
  answers 201 with a new note and the collection becomes the old one with that note
  appended at its end. The note's id is one greater than the greatest id in the old
  collection, and 1 when that was empty; so it is greater than every id there. Its
  \<^verbatim>\<open>content\<close> is the body's, its \<^verbatim>\<open>date\<close> is the time stamp taken at the call, and
  its \<^verbatim>\<open>important\<close> is \<^verbatim>\<open>body.important || false\<close>: \<^verbatim>\<open>false\<close> when the property is
  omitted, and the body's value when that is a boolean.
\<close>

theorem post_note_created:
  assumes "truthy (body ''content'')"
  shows "\<exists>n. post_note now (Some body) notes =
               Inr (notes @ [n], \<lparr>status = 201, payload = Json_note n\<rparr>) \<and>
             id_note n = (if notes = [] then 1 else Max (id_note ` set notes) + 1) \<and>
             (\<forall>m\<in>set notes. id_note m < id_note n) \<and>
             content n = body ''content'' \<and>
             important n =
               (if truthy (body ''important'') then body ''important'' else JBool False) \<and>
             (body ''important'' = JUndefined \<longrightarrow> important n = JBool False) \<and>
             (\<forall>b. body ''important'' = JBool b \<longrightarrow> important n = JBool b) \<and>
             date n = now"
proof -
  define n where "n = \<lparr>id_note = generateId notes, content = body ''content'',
    important = js_or (body ''important'') (JBool False), date = now\<rparr>"
  have "post_note now (Some body) notes =
      Inr (notes @ [n], \<lparr>status = 201, payload = Json_note n\<rparr>)"
    using assms by (simp add: post_note_def n_def Let_def)
  moreover have "id_note n = (if notes = [] then 1 else Max (id_note ` set notes) + 1)"
    by (simp add: n_def generateId_Nil generateId_Max)
  moreover have "\<forall>m\<in>set notes. id_note m < id_note n"
    by (simp add: n_def generateId_gt)
  moreover have "content n = body ''content''" and "date n = now"
    by (simp_all add: n_def)
  moreover have "important n =
      (if truthy (body ''important'') then body ''important'' else JBool False)"
    by (simp add: n_def js_or_def)
  moreover have "body ''important'' = JUndefined \<longrightarrow> important n = JBool False"
    by (simp add: n_def js_or_def)
  moreover have "\<forall>b. body ''important'' = JBool b \<longrightarrow> important n = JBool b"
    by (simp add: n_def js_or_def)
  ultimately show ?thesis by blast
qed

text \<open>On the seed, \<^verbatim>\<open>{content: "test"}\<close> is stored with id 4 and \<^verbatim>\<open>important: false\<close>.\<close>

theorem post_note_created_witness:
  "truthy (((\<lambda>k. JUndefined)(''content'' := JStr ''test'')) ''content'') \<and>
   post_note ''t'' (Some ((\<lambda>k. JUndefined)(''content'' := JStr ''test'')))
       (notes_init ''a'' ''b'' ''c'') =
     Inr (notes_init ''a'' ''b'' ''c'' @
        [\<lparr>id_note = 4, content = JStr ''test'', important = JBool False, date = ''t''\<rparr>],
      \<lparr>status = 201,
        payload = Json_note
          \<lparr>id_note = 4, content = JStr ''test'', important = JBool False, date = ''t''\<rparr>\<rparr>)"
proof -
  let ?b = "(\<lambda>k. JUndefined)(''content'' := JStr ''test'')"
  let ?ns = "notes_init ''a'' ''b'' ''c''"
  have t: "truthy (?b ''content'')" by simp
  from post_note_created [of ?b "''t''" ?ns] t
  obtain n where
    p: "post_note ''t'' (Some ?b) ?ns = Inr (?ns @ [n], \<lparr>status = 201, payload = Json_note n\<rparr>)"
    and i: "id_note n = (if ?ns = [] then 1 else Max (id_note ` set ?ns) + 1)"
    and c: "content n = ?b ''content''"
    and m: "important n = (if truthy (?b ''important'') then ?b ''important'' else JBool False)"
    and d: "date n = ''t''"
    by blast
  have "id_note n = 4" using i by (simp add: notes_init_def)
  moreover have "content n = JStr ''test''" using c by simp
  moreover have "important n = JBool False" using m by simp
  ultimately have
    "n = \<lparr>id_note = 4, content = JStr ''test'', important = JBool False, date = ''t''\<rparr>"
    using d by simp
  with p t show ?thesis by simp
qed

subsection \<open>C2: ids stay pairwise distinct\<close>

text \<open>
  C2. When the ids of the collection are pairwise distinct, they still are after any
  one request (list, get, create, update or delete, a request that ends in the error
  middleware included), hence after any sequence of requests; and after a successful
  create the id of the returned note occurs exactly once among the ids of the new
  collection.
\<close>

theorem ids_stay_distinct:
  assumes "distinct (map id_note notes)"
  shows "distinct (map id_note (fst (handle development r notes))) \<and>
         distinct (map id_note (run development rs notes)) \<and>
         (truthy (body ''content'') \<longrightarrow>
            (\<exists>n. post_note now (Some body) notes =
                   Inr (notes @ [n], \<lparr>status = 201, payload = Json_note n\<rparr>) \<and>
                 count_list (map id_note (notes @ [n])) (id_note n) = 1))"
proof -
  have "count_list (map id_note (notes @ [n])) (id_note n) = 1"
    if "n = \<lparr>id_note = generateId notes, content = c, important = v, date = now\<rparr>"
    for n c v
  proof -
    have "id_note n \<notin> set (map id_note notes)"
      using generateId_fresh [of "notes"] that by simp
    then have "count_list (map id_note notes) (id_note n) = 0"
      by simp
    then show ?thesis by simp
  qed
  then have "truthy (body ''content'') \<longrightarrow>
            (\<exists>n. post_note now (Some body) notes =
                   Inr (notes @ [n], \<lparr>status = 201, payload = Json_note n\<rparr>) \<and>
                 count_list (map id_note (notes @ [n])) (id_note n) = 1)"
    by (simp add: post_note_def Let_def)
  with assms show ?thesis
    by (simp add: handle_distinct run_distinct)
qed

text \<open>
  On the seed: after a delete, after a create, a delete and a second create, and the
  id 4 of a first create.
\<close>

theorem ids_stay_distinct_witness:
  "distinct (map id_note (notes_init ''a'' ''b'' ''c'')) \<and>
   distinct (map id_note
     (fst (handle False (Delete_note (Fin 2)) (notes_init ''a'' ''b'' ''c'')))) \<and>
   distinct (map id_note
     (run False
        [Post_note ''t'' (Some ((\<lambda>k. JUndefined)(''content'' := JStr ''x''))),
         Delete_note (Fin 1),
         Post_note ''u'' (Some ((\<lambda>k. JUndefined)(''content'' := JStr ''y'')))]
        (notes_init ''a'' ''b'' ''c''))) \<and>
   truthy (((\<lambda>k. JUndefined)(''content'' := JStr ''test'')) ''content'') \<and>
   count_list
     (map id_note
        (fst (handle False
           (Post_note ''t'' (Some ((\<lambda>k. JUndefined)(''content'' := JStr ''test''))))
           (notes_init ''a'' ''b'' ''c''))))
     4 = 1"
  using ids_stay_distinct [of "notes_init ''a'' ''b'' ''c''" False "Delete_note (Fin 2)"
      "[Post_note ''t'' (Some ((\<lambda>k. JUndefined)(''content'' := JStr ''x''))),
        Delete_note (Fin 1),
        Post_note ''u'' (Some ((\<lambda>k. JUndefined)(''content'' := JStr ''y'')))]"
      "(\<lambda>k. JUndefined)(''content'' := JStr ''test'')" "''t''"]
  by (simp add: handlers_eval)

subsection \<open>C3: an update of a note that is there\<close>




subsection \<open>C4: a create without content\<close>




subsection \<open>C5: an update of an id that is not there\<close>

text \<open>
  C5. An update whose id is the id of no note of the collection is answered with
  status 404 and the body \<^verbatim>\<open>{error: "Note not found"}\<close>, and the collection stays
  exactly as it was; that holds whatever \<^verbatim>\<open>req.body\<close> is, since the handler answers
  before it reads the body.
\<close>

theorem put_note_missing:
  assumes "\<forall>n\<in>set notes. \<not> id_eq (id_note n) i"
  shows "put_note i body notes =
           Inr (notes, \<lparr>status = 404, payload = Json_error ''Note not found''\<rparr>)"
  using assms by (simp add: put_note_def find_id_eq_absent)

text \<open>On the seed, \<^verbatim>\<open>PUT /api/notes/7\<close>.\<close>

theorem put_note_missing_witness:
  "list_all (\<lambda>n. \<not> id_eq (id_note n) (Fin 7)) (notes_init ''a'' ''b'' ''c'') \<and>
   put_note (Fin 7) (Some ((\<lambda>k. JUndefined)(''important'' := JBool True)))
       (notes_init ''a'' ''b'' ''c'') =
     Inr (notes_init ''a'' ''b'' ''c'',
      \<lparr>status = 404, payload = Json_error ''Note not found''\<rparr>)"
  using put_note_missing [of "notes_init ''a'' ''b'' ''c''" "Fin 7"
      "Some ((\<lambda>k. JUndefined)(''important'' := JBool True))"]
  by (simp add: handlers_eval)

subsection \<open>C6: delete is idempotent\<close>

text \<open>
  C6. For every id, a delete is answered with status 204 and no body, whether or not
  a note has that id; a second delete of the same id is answered the same and leaves
  the collection exactly as the first delete left it. When no note has the id, the
  first delete already leaves the collection as it was.
\<close>

theorem delete_note_idempotent:
  "snd (delete_note i notes) = \<lparr>status = 204, payload = No_body\<rparr> \<and>
   delete_note i (fst (delete_note i notes)) =
     (fst (delete_note i notes), \<lparr>status = 204, payload = No_body\<rparr>) \<and>
   ((\<forall>n\<in>set notes. \<not> id_eq (id_note n) i) \<longrightarrow> fst (delete_note i notes) = notes)"
  by (simp add: delete_note_def filter_id_conv)

text \<open>On the seed: deleting id 2 twice, and deleting the absent id 7.\<close>

theorem delete_note_idempotent_witness:
  "delete_note (Fin 2) (notes_init ''a'' ''b'' ''c'') =
     ([notes_init ''a'' ''b'' ''c'' ! 0, notes_init ''a'' ''b'' ''c'' ! 2],
      \<lparr>status = 204, payload = No_body\<rparr>) \<and>
   delete_note (Fin 2) (fst (delete_note (Fin 2) (notes_init ''a'' ''b'' ''c''))) =
     ([notes_init ''a'' ''b'' ''c'' ! 0, notes_init ''a'' ''b'' ''c'' ! 2],
      \<lparr>status = 204, payload = No_body\<rparr>) \<and>
   list_all (\<lambda>n. \<not> id_eq (id_note n) (Fin 7)) (notes_init ''a'' ''b'' ''c'') \<and>
   delete_note (Fin 7) (notes_init ''a'' ''b'' ''c'') =
     (notes_init ''a'' ''b'' ''c'', \<lparr>status = 204, payload = No_body\<rparr>)"
  using delete_note_idempotent [of "Fin 2" "notes_init ''a'' ''b'' ''c''"]
    delete_note_idempotent [of "Fin 7" "notes_init ''a'' ''b'' ''c''"]
  by (simp add: handlers_eval)

subsection \<open>C7: get by id\<close>

text \<open>
  C7. For every id, when some note of the collection has that id the get is answered
  with status 200 and the first such note, and otherwise with status 404 and the body
  \<^verbatim>\<open>{error: "Note not found"}\<close>. A get never changes the collection. A get of an id
  right after a delete of that id is answered 404.
\<close>

theorem get_note_result:
  "(if \<exists>m\<in>set notes. id_eq (id_note m) i
    then \<exists>k<length notes. id_eq (id_note (notes ! k)) i \<and>
           (\<forall>j<k. \<not> id_eq (id_note (notes ! j)) i) \<and>
           get_note i notes = (notes, \<lparr>status = 200, payload = Json_note (notes ! k)\<rparr>)
    else get_note i notes =
           (notes, \<lparr>status = 404, payload = Json_error ''Note not found''\<rparr>)) \<and>
   fst (get_note i notes) = notes \<and>
   get_note i (fst (delete_note i notes)) =
     (fst (delete_note i notes), \<lparr>status = 404, payload = Json_error ''Note not found''\<rparr>)"
proof -
  have present: "\<exists>k<length notes. id_eq (id_note (notes ! k)) i \<and>
           (\<forall>j<k. \<not> id_eq (id_note (notes ! j)) i) \<and>
           get_note i notes = (notes, \<lparr>status = 200, payload = Json_note (notes ! k)\<rparr>)"
    if "\<exists>m\<in>set notes. id_eq (id_note m) i"
  proof -
    from that obtain n where f: "find (\<lambda>n. id_eq (id_note n) i) notes = Some n"
      by (auto elim: find_id_eq_present)
    then obtain k where "k < length notes" "id_eq (id_note (notes ! k)) i" "n = notes ! k"
      "\<forall>j<k. \<not> id_eq (id_note (notes ! j)) i"
      by (auto simp: find_Some_iff)
    with f show ?thesis
      by (auto simp: get_note_def)
  qed
  have absent: "get_note i notes =
      (notes, \<lparr>status = 404, payload = Json_error ''Note not found''\<rparr>)"
    if "\<not> (\<exists>m\<in>set notes. id_eq (id_note m) i)"
    using that by (simp add: get_note_def find_id_eq_absent)
  have deleted: "get_note i (fst (delete_note i notes)) =
     (fst (delete_note i notes), \<lparr>status = 404, payload = Json_error ''Note not found''\<rparr>)"
    by (simp add: get_note_def delete_note_def find_id_eq_absent)
  show ?thesis
    using present absent deleted by (simp add: get_note_fst)
qed

text \<open>On the seed: the ids 2 and 9, and the id 2 after its delete.\<close>

theorem get_note_result_witness:
  "get_note (Fin 2) (notes_init ''a'' ''b'' ''c'') =
     (notes_init ''a'' ''b'' ''c'',
      \<lparr>status = 200, payload = Json_note (notes_init ''a'' ''b'' ''c'' ! 1)\<rparr>) \<and>
   get_note (Fin 9) (notes_init ''a'' ''b'' ''c'') =
     (notes_init ''a'' ''b'' ''c'',
      \<lparr>status = 404, payload = Json_error ''Note not found''\<rparr>) \<and>
   get_note (Fin 2) (fst (delete_note (Fin 2) (notes_init ''a'' ''b'' ''c''))) =
     (fst (delete_note (Fin 2) (notes_init ''a'' ''b'' ''c'')),
      \<lparr>status = 404, payload = Json_error ''Note not found''\<rparr>)"
  using get_note_result [of "notes_init ''a'' ''b'' ''c''" "Fin 2"]
    get_note_result [of "notes_init ''a'' ''b'' ''c''" "Fin 9"]
  by (simp add: handlers_eval)

subsection \<open>C8: create, then delete what was created\<close>

text \<open>
  C8. For every collection (with pairwise distinct ids or not), a create with truthy
  \<^verbatim>\<open>content\<close> followed by a delete of the id that the create returned gives back
  exactly the collection from before the create: the same notes in the same order.
  The path of the delete carries the decimal form of the returned id, which
  \<^verbatim>\<open>Number\<close> reads back as that integer.
\<close>

theorem post_then_delete:
  assumes "truthy (body ''content'')"
  shows "\<exists>n. post_note now (Some body) notes =
               Inr (notes @ [n], \<lparr>status = 201, payload = Json_note n\<rparr>) \<and>
             delete_note (Fin (of_int (id_note n))) (notes @ [n]) =
               (notes, \<lparr>status = 204, payload = No_body\<rparr>) \<and>
             run development
               [Post_note now (Some body), Delete_note (Fin (of_int (id_note n)))] notes =
               notes"
proof -
  define n where "n = \<lparr>id_note = generateId notes, content = body ''content'',
    important = js_or (body ''important'') (JBool False), date = now\<rparr>"
  have p: "post_note now (Some body) notes =
      Inr (notes @ [n], \<lparr>status = 201, payload = Json_note n\<rparr>)"
    using assms by (simp add: post_note_def n_def Let_def)
  have "\<forall>m\<in>set notes. id_note m \<noteq> id_note n"
    using generateId_gt [of _ "notes"] by (fastforce simp: n_def)
  then have "filter (\<lambda>m. \<not> id_eq (id_note m) (Fin (of_int (id_note n)))) notes = notes"
    by (auto simp: filter_id_conv)
  then have d: "delete_note (Fin (of_int (id_note n))) (notes @ [n]) =
      (notes, \<lparr>status = 204, payload = No_body\<rparr>)"
    by (simp add: delete_note_def)
  from p d show ?thesis by (auto simp: served_Inr)
qed

text \<open>The scenario of the seed: \<^verbatim>\<open>{content: "test"}\<close> gets id 4, and deleting 4 restores the seed.\<close>

theorem post_then_delete_witness:
  "truthy (((\<lambda>k. JUndefined)(''content'' := JStr ''test'')) ''content'') \<and>
   fst (handle False (Post_note ''t'' (Some ((\<lambda>k. JUndefined)(''content'' := JStr ''test''))))
          (notes_init ''a'' ''b'' ''c'')) =
     notes_init ''a'' ''b'' ''c'' @
       [\<lparr>id_note = 4, content = JStr ''test'', important = JBool False, date = ''t''\<rparr>] \<and>
   run False
     [Post_note ''t'' (Some ((\<lambda>k. JUndefined)(''content'' := JStr ''test''))),
      Delete_note (Fin 4)] (notes_init ''a'' ''b'' ''c'') =
     notes_init ''a'' ''b'' ''c''"
  using post_then_delete [of "(\<lambda>k. JUndefined)(''content'' := JStr ''test'')" "''t''"
      "notes_init ''a'' ''b'' ''c''" False]
  by (simp add: handlers_eval)

subsection \<open>C9: an id that is not a number\<close>

text \<open>
  C9. When \<^verbatim>\<open>Number(req.params.id)\<close> is \<^verbatim>\<open>NaN\<close>, as it is for a path segment that is
  not a numeric literal, the request is treated as one for an id that no note has:
  get and update are answered with status 404 and \<^verbatim>\<open>{error: "Note not found"}\<close>
  (update whatever \<^verbatim>\<open>req.body\<close> is), delete is answered with status 204, and in all
  three the collection stays as it was.
\<close>

theorem nan_id_is_absent:
  "get_note NaN notes = (notes, \<lparr>status = 404, payload = Json_error ''Note not found''\<rparr>) \<and>
   put_note NaN body notes =
     Inr (notes, \<lparr>status = 404, payload = Json_error ''Note not found''\<rparr>) \<and>
   handle development (Put_note NaN body) notes =
     (notes, \<lparr>status = 404, payload = Json_error ''Note not found''\<rparr>) \<and>
   delete_note NaN notes = (notes, \<lparr>status = 204, payload = No_body\<rparr>)"
  by (simp add: get_note_def put_note_def delete_note_def served_Inr find_NaN filter_NaN)

subsection \<open>C10: the stored importance of a created note\<close>

text \<open>
  C10. For every create request with truthy \<^verbatim>\<open>content\<close>, the stored \<^verbatim>\<open>important\<close> is
  the body's value when that value is truthy, whatever its type, and is \<^verbatim>\<open>false\<close>
  otherwise; in particular \<^verbatim>\<open>false\<close>, \<^verbatim>\<open>0\<close>, the empty string, \<^verbatim>\<open>null\<close> and an
  omitted property are all stored as \<^verbatim>\<open>false\<close>.
\<close>

theorem post_note_important:
  assumes "truthy (body ''content'')"
  shows "\<exists>n. post_note now (Some body) notes =
               Inr (notes @ [n], \<lparr>status = 201, payload = Json_note n\<rparr>) \<and>
             (truthy (body ''important'') \<longrightarrow> important n = body ''important'') \<and>
             (\<not> truthy (body ''important'') \<longrightarrow> important n = JBool False) \<and>
             (body ''important'' \<in> {JBool False, JNum (Fin 0), JStr '''', JNull, JUndefined}
                \<longrightarrow> important n = JBool False)"
  using assms by (auto simp: post_note_def Let_def js_or_def)

text \<open>
  On the seed: \<^verbatim>\<open>important: 0\<close> is stored as \<^verbatim>\<open>false\<close>, and \<^verbatim>\<open>important: "yes"\<close>
  is stored as the string.
\<close>

theorem post_note_important_witness:
  "important (last (fst (handle False (Post_note ''t''
      (Some ((\<lambda>k. JUndefined)(''content'' := JStr ''x'', ''important'' := JNum (Fin 0)))))
      (notes_init ''a'' ''b'' ''c'')))) = JBool False \<and>
   important (last (fst (handle False (Post_note ''t''
      (Some ((\<lambda>k. JUndefined)(''content'' := JStr ''x'', ''important'' := JStr ''yes''))))
      (notes_init ''a'' ''b'' ''c'')))) = JStr ''yes''"
  using post_note_important [of
      "(\<lambda>k. JUndefined)(''content'' := JStr ''x'', ''important'' := JNum (Fin 0))" "''t''"
      "notes_init ''a'' ''b'' ''c''"]
    post_note_important [of
      "(\<lambda>k. JUndefined)(''content'' := JStr ''x'', ''important'' := JStr ''yes'')" "''t''"
      "notes_init ''a'' ''b'' ''c''"]
  by (simp add: handlers_eval)

end
